theory Spec2Isabelle
  imports Main
begin

section \<open>The serializers of \<open>user_management/api/serializers.py\<close>\<close>

text \<open>
  The module is a set of rule sets over one entity, the account (\<open>User\<close>), on top of a
  web framework. Each method of the module becomes one HOL function of the same name
  (the class name and the method name joined by an underscore). A Python \<open>str\<close> is a
  \<open>string\<close> whose characters are read as code points; a dict of validated attributes
  is an association list in the order of the fields; an exception is the left
  injection of a sum.
\<close>

subsection \<open>Strings\<close>

text \<open>
  \<open>str.lower()\<close>: each of the letters \<open>A\<close> to \<open>Z\<close> is replaced by its lower-case form; every
  other character is left alone, which is what Python does on ASCII text; Python also
  lower-cases the cased letters beyond ASCII. No statement below depends on which
  characters have a lower-case form: each holds for any function in the place of \<open>lower\<close>,
  and \<open>lower\<close> is evaluated on ASCII text only.
\<close>

definition lower_char :: "char \<Rightarrow> char" where
  "lower_char c =
     (case map_of (zip ''ABCDEFGHIJKLMNOPQRSTUVWXYZ'' ''abcdefghijklmnopqrstuvwxyz'') c of
        None \<Rightarrow> c
      | Some l \<Rightarrow> l)"

definition lower :: "string \<Rightarrow> string" where
  "lower s = map lower_char s"

subsection \<open>Errors\<close>

text \<open>
  \<open>serializers.ValidationError\<close> is raised with a single message
  (\<open>ValidationError(msg)\<close>), with a list of messages (by a field that collects the
  messages of its validators) or with a dict from field name to message
  (\<open>ValidationError({'password2': msg})\<close>). \<open>KeyError\<close> is what \<open>attrs['k']\<close> and
  \<open>attrs.pop('k')\<close> raise on a missing key, \<open>DoesNotExist\<close> what the manager's lookup
  raises.
\<close>

datatype detail =
    Msg string
  | MsgList "string list"
  | MsgDict "(string \<times> string) list"

datatype error =
    ValidationError detail
  | KeyError string
  | DoesNotExist

subsection \<open>The account and its manager\<close>

record User =
  name :: string
  email :: string
  password :: string
  date_joined :: int
  email_verification_required :: bool

text \<open>
  Modelled from the spec: \<open>User.objects\<close>, the table of accounts behind the manager (the
  model and its manager are not in src). The spec gives the email as the unique natural
  key of an account, so the table is a map from natural key to account.
\<close>

type_synonym objects = "string \<rightharpoonup> User"

text \<open>
  Modelled from the spec: \<open>User.objects.get_by_natural_key\<close> (not in src), the lookup of
  the account stored under the given natural key; \<open>User.DoesNotExist\<close> when there is none.
  This lookup matches the key exactly. Whether the manager of the repository does is not
  in src; no claim below is settled by it: the statements take the outcome of the lookup
  as their hypothesis, or are made for every manager.
\<close>

definition get_by_natural_key :: "objects \<Rightarrow> string \<Rightarrow> error + User" where
  "get_by_natural_key objs key =
     (case objs key of None \<Rightarrow> Inl DoesNotExist | Some u \<Rightarrow> Inr u)"

subsection \<open>\<open>ValidateEmailMixin\<close>\<close>

definition ValidateEmailMixin_validate_email :: "objects \<Rightarrow> string \<Rightarrow> error + string" where
  "ValidateEmailMixin_validate_email objs value =
     (let email' = lower value in
      case get_by_natural_key objs email' of
        Inl DoesNotExist \<Rightarrow> Inr email'
      | Inl e \<Rightarrow> Inl e
      | Inr _ \<Rightarrow> Inl (ValidationError (Msg ''That email address has already been registered.'')))"

text \<open>
  \<open>RegistrationSerializer\<close> and \<open>UserSerializerCreate\<close> list the mixin first among their
  bases and define no \<open>validate_email\<close> of their own, so theirs is the mixin's.
\<close>

definition RegistrationSerializer_validate_email :: "objects \<Rightarrow> string \<Rightarrow> error + string" where
  "RegistrationSerializer_validate_email = ValidateEmailMixin_validate_email"

definition UserSerializerCreate_validate_email :: "objects \<Rightarrow> string \<Rightarrow> error + string" where
  "UserSerializerCreate_validate_email = ValidateEmailMixin_validate_email"

subsection \<open>Dicts of attributes\<close>

text \<open>
  The \<open>attrs\<close> and \<open>validated_data\<close> dicts hold the values of the serializer's own
  character fields, keyed by field name. \<open>dict_get\<close> is \<open>d.get(k)\<close> (\<open>None\<close> on a missing
  key), \<open>dict_item\<close> is \<open>d[k]\<close> and \<open>dict_pop\<close> is \<open>d.pop(k)\<close>, which returns the value and
  leaves the dict without the key; the last two raise \<open>KeyError\<close> on a missing key.
\<close>

type_synonym attrs = "(string \<times> string) list"

definition dict_get :: "attrs \<Rightarrow> string \<Rightarrow> string option" where
  "dict_get d k = map_of d k"

definition dict_item :: "attrs \<Rightarrow> string \<Rightarrow> error + string" where
  "dict_item d k = (case map_of d k of None \<Rightarrow> Inl (KeyError k) | Some v \<Rightarrow> Inr v)"

definition dict_pop :: "attrs \<Rightarrow> string \<Rightarrow> error + (string \<times> attrs)" where
  "dict_pop d k =
     (case map_of d k of
        None \<Rightarrow> Inl (KeyError k)
      | Some v \<Rightarrow> Inr (v, filter (\<lambda>kv. fst kv \<noteq> k) d))"

subsection \<open>\<open>RegistrationSerializer\<close>\<close>

definition RegistrationSerializer_validate :: "attrs \<Rightarrow> error + attrs" where
  "RegistrationSerializer_validate attrs =
     (case dict_pop attrs ''password2'' of
        Inl e \<Rightarrow> Inl e
      | Inr (password2, attrs') \<Rightarrow>
          if Some password2 \<noteq> dict_get attrs' ''password''
          then Inl (ValidationError (MsgDict [(''password2'', ''Your passwords do not match.'')]))
          else Inr attrs')"

text \<open>
  \<open>create\<close> hands the validated data, as it is, to the manager's \<open>create\<close>. The manager is
  not in src: it is the parameter \<open>objects_create\<close>.
\<close>

definition RegistrationSerializer_create :: "(attrs \<Rightarrow> 'r) \<Rightarrow> attrs \<Rightarrow> 'r" where
  "RegistrationSerializer_create objects_create validated_data = objects_create validated_data"

subsection \<open>Password hashing\<close>

text \<open>
  The password hasher is an external collaborator: \<open>make_password\<close> turns a raw password
  into the hash that is stored, \<open>verify_password\<close> checks a raw password against a stored
  hash. Both are parameters of the model.
\<close>

record hasher =
  make_password :: "string \<Rightarrow> string"
  verify_password :: "string \<Rightarrow> string \<Rightarrow> bool"

text \<open>
  Modelled from the spec: \<open>instance.check_password\<close> and \<open>instance.set_password\<close>, methods
  of the account model (not in src): the password-hash verify and set primitives. The
  first compares the raw password with the stored hash, the second stores the hash of the
  raw password in the instance.
\<close>

definition check_password :: "hasher \<Rightarrow> User \<Rightarrow> string \<Rightarrow> bool" where
  "check_password H instance raw = verify_password H raw (password instance)"

definition set_password :: "hasher \<Rightarrow> User \<Rightarrow> string \<Rightarrow> User" where
  "set_password H instance raw = instance\<lparr>password := make_password H raw\<rparr>"

subsection \<open>\<open>PasswordChangeSerializer\<close> and \<open>PasswordResetSerializer\<close>\<close>

text \<open>
  \<open>update\<close> mutates the instance it is given. The model passes the instance through: the
  result is the exception raised, if any, paired with the instance as the call leaves
  it; with no exception the instance returned is that second component.
\<close>

definition PasswordChangeSerializer_update :: "hasher \<Rightarrow> User \<Rightarrow> attrs \<Rightarrow> error option \<times> User" where
  "PasswordChangeSerializer_update H instance validated_data =
     (case dict_item validated_data ''old_password'' of
        Inl e \<Rightarrow> (Some e, instance)
      | Inr old_password \<Rightarrow>
          if \<not> check_password H instance old_password
          then (Some (ValidationError (MsgDict [(''old_password'', ''Invalid password.'')])), instance)
          else (case dict_item validated_data ''new_password'' of
                  Inl e \<Rightarrow> (Some e, instance)
                | Inr new_password \<Rightarrow> (None, set_password H instance new_password)))"

definition PasswordChangeSerializer_validate :: "attrs \<Rightarrow> error + attrs" where
  "PasswordChangeSerializer_validate attrs =
     (case dict_item attrs ''new_password2'' of
        Inl e \<Rightarrow> Inl e
      | Inr new_password2 \<Rightarrow>
          if dict_get attrs ''new_password'' \<noteq> Some new_password2
          then Inl (ValidationError (MsgDict [(''new_password2'', ''Your new passwords do not match.'')]))
          else Inr attrs)"

definition PasswordResetSerializer_update :: "hasher \<Rightarrow> User \<Rightarrow> attrs \<Rightarrow> error option \<times> User" where
  "PasswordResetSerializer_update H instance validated_data =
     (case dict_item validated_data ''new_password'' of
        Inl e \<Rightarrow> (Some e, instance)
      | Inr new_password \<Rightarrow> (None, set_password H instance new_password))"

definition PasswordResetSerializer_validate :: "attrs \<Rightarrow> error + attrs" where
  "PasswordResetSerializer_validate attrs =
     (case dict_item attrs ''new_password2'' of
        Inl e \<Rightarrow> Inl e
      | Inr new_password2 \<Rightarrow>
          if dict_get attrs ''new_password'' \<noteq> Some new_password2
          then Inl (ValidationError (MsgDict [(''new_password2'', ''Your new passwords do not match.'')]))
          else Inr attrs)"

subsection \<open>\<open>ResendConfirmationEmailSerializer\<close>\<close>

text \<open>
  The serializer object carries the attribute \<open>user\<close>, which \<open>validate_email\<close> sets; it is
  \<open>None\<close> as long as nothing has set it. The method returns its result together with the
  serializer as the call leaves it. When the lookup raises, the assignment to \<open>self.user\<close>
  has not happened.
\<close>

record ResendConfirmationEmailSerializer =
  user :: "User option"

definition ResendConfirmationEmailSerializer_validate_email ::
  "objects \<Rightarrow> ResendConfirmationEmailSerializer \<Rightarrow> string
     \<Rightarrow> (error + string) \<times> ResendConfirmationEmailSerializer" where
  "ResendConfirmationEmailSerializer_validate_email objs self email' =
     (case get_by_natural_key objs email' of
        Inl DoesNotExist \<Rightarrow>
          (Inl (ValidationError (Msg ''A user with this email address does not exist.'')), self)
      | Inl e \<Rightarrow> (Inl e, self)
      | Inr u \<Rightarrow>
          (let self' = self\<lparr>user := Some u\<rparr> in
           if \<not> email_verification_required u
           then (Inl (ValidationError (Msg ''User email address is already verified.'')), self')
           else (Inr email', self')))"

subsection \<open>The two lookups over any manager\<close>

text \<open>
  How \<open>User.objects.get_by_natural_key\<close> matches the key it is given (exactly, or without
  regard to case) is decided in the manager, which is not in src; the table above is one
  possible manager. What src decides is the key each method hands over. To state that
  without a model of the manager, the two methods that call it are given once more with
  the manager's lookup as the parameter \<open>manager\<close>.
\<close>

definition ValidateEmailMixin_validate_email_with ::
  "(string \<Rightarrow> error + User) \<Rightarrow> string \<Rightarrow> error + string" where
  "ValidateEmailMixin_validate_email_with manager value =
     (let email' = lower value in
      case manager email' of
        Inl DoesNotExist \<Rightarrow> Inr email'
      | Inl e \<Rightarrow> Inl e
      | Inr _ \<Rightarrow> Inl (ValidationError (Msg ''That email address has already been registered.'')))"

definition ResendConfirmationEmailSerializer_validate_email_with ::
  "(string \<Rightarrow> error + User) \<Rightarrow> ResendConfirmationEmailSerializer \<Rightarrow> string
     \<Rightarrow> (error + string) \<times> ResendConfirmationEmailSerializer" where
  "ResendConfirmationEmailSerializer_validate_email_with manager self email' =
     (case manager email' of
        Inl DoesNotExist \<Rightarrow>
          (Inl (ValidationError (Msg ''A user with this email address does not exist.'')), self)
      | Inl e \<Rightarrow> (Inl e, self)
      | Inr u \<Rightarrow>
          (let self' = self\<lparr>user := Some u\<rparr> in
           if \<not> email_verification_required u
           then (Inl (ValidationError (Msg ''User email address is already verified.'')), self')
           else (Inr email', self')))"

subsection \<open>Saving through a serializer\<close>

text \<open>
  What the framework's \<open>serializer.save()\<close> does for a serializer bound to an instance is
  not in src. Its contract: it calls \<open>update\<close> with the instance and the validated data and
  keeps the instance that \<open>update\<close> returns; it writes nothing to the table itself.
  Writing the instance to the table is \<open>instance.save()\<close>, left to \<open>update\<close>. The two
  \<open>update\<close> methods of this module call \<open>set_password\<close>, which changes the instance in
  memory only, and never \<open>instance.save()\<close>, so the table after the call is the table
  before it.
\<close>

definition Serializer_save ::
  "(User \<Rightarrow> attrs \<Rightarrow> error option \<times> User) \<Rightarrow> objects \<Rightarrow> User \<Rightarrow> attrs
     \<Rightarrow> error option \<times> User \<times> objects" where
  "Serializer_save update objs instance validated_data =
     (case update instance validated_data of (err, instance') \<Rightarrow> (err, instance', objs))"

subsection \<open>Declared character fields\<close>

text \<open>
  The password fields are declared in the module as \<open>serializers.CharField\<close>s. A
  declaration is kept as data: the \<open>write_only\<close> flag, the \<open>min_length\<close> argument
  (\<open>None\<close> when it is not given) and the \<open>validators\<close> argument; labels are presentation
  only. A validator takes the value and gives the messages it rejects the value with,
  none when it accepts. \<open>validate_password_strength\<close> is imported from
  \<open>user_management.utils.validators\<close>, which is not in src: it is a parameter of each
  declaration that names it.
\<close>

record CharField =
  write_only :: bool
  min_length :: "nat option"
  validators :: "(string \<Rightarrow> string list) list"

definition RegistrationSerializer_password :: "(string \<Rightarrow> string list) \<Rightarrow> CharField" where
  "RegistrationSerializer_password validate_password_strength =
     \<lparr>write_only = True, min_length = Some 8, validators = [validate_password_strength]\<rparr>"

definition RegistrationSerializer_password2 :: CharField where
  "RegistrationSerializer_password2 =
     \<lparr>write_only = True, min_length = Some 8, validators = []\<rparr>"

definition PasswordChangeSerializer_old_password :: CharField where
  "PasswordChangeSerializer_old_password =
     \<lparr>write_only = True, min_length = None, validators = []\<rparr>"

definition PasswordChangeSerializer_new_password :: "(string \<Rightarrow> string list) \<Rightarrow> CharField" where
  "PasswordChangeSerializer_new_password validate_password_strength =
     \<lparr>write_only = True, min_length = Some 8, validators = [validate_password_strength]\<rparr>"

definition PasswordChangeSerializer_new_password2 :: CharField where
  "PasswordChangeSerializer_new_password2 =
     \<lparr>write_only = True, min_length = Some 8, validators = []\<rparr>"

definition PasswordResetSerializer_new_password :: "(string \<Rightarrow> string list) \<Rightarrow> CharField" where
  "PasswordResetSerializer_new_password validate_password_strength =
     \<lparr>write_only = True, min_length = Some 8, validators = [validate_password_strength]\<rparr>"

definition PasswordResetSerializer_new_password2 :: CharField where
  "PasswordResetSerializer_new_password2 =
     \<lparr>write_only = True, min_length = Some 8, validators = []\<rparr>"

text \<open>
  What the framework does with such a declaration is not in src. Its contract for a
  character field: white space at both ends of the value is trimmed; a value that is
  empty, or empty once trimmed, is rejected as blank unless the declaration allows blank
  values, which none of the declarations above does; \<open>min_length\<close> adds a minimum-length
  validator after the validators given; the field runs every validator on the trimmed
  value, collects the messages, and raises one \<open>ValidationError\<close> for the field with all
  of them when there is any. The length of a \<open>str\<close> is its number of characters.
  \<open>isspace\<close> lists the white space among the code points below 256, \<open>strip\<close> is
  \<open>str.strip()\<close>, and \<open>decimal\<close> writes a number the way the message of the validator
  shows it.
\<close>

definition isspace :: "char \<Rightarrow> bool" where
  "isspace c \<longleftrightarrow>
     c \<in> set [CHR 0x09, CHR 0x0A, CHR 0x0B, CHR 0x0C, CHR 0x0D, CHR 0x1C, CHR 0x1D, CHR 0x1E,
              CHR 0x1F, CHR 0x20, CHR 0x85, CHR 0xA0]"

definition strip :: "string \<Rightarrow> string" where
  "strip s = rev (dropWhile isspace (rev (dropWhile isspace s)))"

definition digit_char :: "nat \<Rightarrow> char" where
  "digit_char d = ''0123456789'' ! (d mod 10)"

fun decimal :: "nat \<Rightarrow> string" where
  "decimal n = (if n < 10 then [digit_char n] else decimal (n div 10) @ [digit_char (n mod 10)])"

declare decimal.simps [simp del]

definition MinLengthValidator :: "nat \<Rightarrow> string \<Rightarrow> string list" where
  "MinLengthValidator limit value =
     (if length value < limit
      then [''Ensure this field has at least '' @ decimal limit @ '' characters.'']
      else [])"

definition CharField_run_validators :: "CharField \<Rightarrow> string \<Rightarrow> error + string" where
  "CharField_run_validators field value =
     (let vs = validators field @
               (case min_length field of None \<Rightarrow> [] | Some limit \<Rightarrow> [MinLengthValidator limit]);
          errors = concat (map (\<lambda>v. v value) vs)
      in if errors = [] then Inr value else Inl (ValidationError (MsgList errors)))"

definition CharField_run_validation :: "CharField \<Rightarrow> string \<Rightarrow> error + string" where
  "CharField_run_validation field data =
     (if data = [] \<or> strip data = []
      then Inl (ValidationError (MsgList [''This field may not be blank.'']))
      else CharField_run_validators field (strip data))"

subsection \<open>Model serializers: \<open>ProfileSerializer\<close>, \<open>UserSerializer\<close>, \<open>UserSerializerCreate\<close>\<close>

text \<open>
  These three classes have no method of their own; each is its \<open>Meta\<close>: the fields
  exposed (\<open>fields'\<close>, for \<open>Meta.fields\<close>) and, among them, the read-only ones. \<open>UserSerializerCreate.Meta\<close> inherits from
  \<open>UserSerializer.Meta\<close> and overrides \<open>read_only_fields\<close>.
\<close>

record Meta =
  fields' :: "string list"
  read_only_fields :: "string list"

definition ProfileSerializer_Meta :: Meta where
  "ProfileSerializer_Meta =
     \<lparr>fields' = [''name'', ''email'', ''date_joined''],
      read_only_fields = [''email'', ''date_joined'']\<rparr>"

definition UserSerializer_Meta :: Meta where
  "UserSerializer_Meta =
     \<lparr>fields' = [''url'', ''name'', ''email'', ''date_joined''],
      read_only_fields = [''email'', ''date_joined'']\<rparr>"

definition UserSerializerCreate_Meta :: Meta where
  "UserSerializerCreate_Meta = UserSerializer_Meta\<lparr>read_only_fields := [''date_joined'']\<rparr>"

text \<open>
  The values of a payload: text, a timestamp, a flag. \<open>setattr\<close> is Python's attribute
  assignment on an account: it replaces the attribute of that name, for any of the five
  attributes of the account.
\<close>

datatype pyval = Str string | DateTime int | Bool bool

type_synonym payload = "(string \<times> pyval) list"

definition setattr :: "User \<Rightarrow> string \<Rightarrow> pyval \<Rightarrow> User" where
  "setattr u attr v =
     (case v of
        Str s \<Rightarrow>
          if attr = ''name'' then u\<lparr>name := s\<rparr>
          else if attr = ''email'' then u\<lparr>email := s\<rparr>
          else if attr = ''password'' then u\<lparr>password := s\<rparr>
          else u
      | DateTime t \<Rightarrow> if attr = ''date_joined'' then u\<lparr>date_joined := t\<rparr> else u
      | Bool b \<Rightarrow>
          if attr = ''email_verification_required''
          then u\<lparr>email_verification_required := b\<rparr>
          else u)"

text \<open>
  What the framework does with a \<open>Meta\<close> is not in src. Its contract for a model
  serializer: the writable fields are the fields of \<open>Meta.fields\<close> that are not in
  \<open>Meta.read_only_fields\<close> (for a hyperlinked serializer the \<open>url\<close> field is an identity
  field and never writable); \<open>to_internal_value\<close> runs each writable field on what the
  payload holds under its name and keeps nothing else of the payload, raising one
  \<open>ValidationError\<close> with the messages of the fields that reject; \<open>update\<close> assigns each
  validated value to the attribute of its name; saving is validation followed, when it
  passes, by \<open>update\<close>. How a field derived from the model treats its input (a missing
  key, a value it rejects, a value it converts) depends on the model, which is not in
  src: it is the parameter \<open>run_field\<close>, from the field name and what the payload holds
  to the messages, or to the validated value, \<open>None\<close> when the field is skipped.
\<close>

type_synonym run_field = "string \<Rightarrow> pyval option \<Rightarrow> string list + pyval option"

definition ModelSerializer_writable_fields :: "Meta \<Rightarrow> string list" where
  "ModelSerializer_writable_fields M =
     filter (\<lambda>f. f \<notin> set (read_only_fields M)) (fields' M)"

definition HyperlinkedModelSerializer_writable_fields :: "Meta \<Rightarrow> string list" where
  "HyperlinkedModelSerializer_writable_fields M =
     filter (\<lambda>f. f \<noteq> ''url'') (ModelSerializer_writable_fields M)"

fun field_errors :: "(string \<times> (string list + pyval option)) list \<Rightarrow> (string \<times> string) list" where
  "field_errors [] = []"
| "field_errors ((f, Inl msgs) # rs) = map (\<lambda>m. (f, m)) msgs @ field_errors rs"
| "field_errors ((f, Inr _) # rs) = field_errors rs"

fun field_values :: "(string \<times> (string list + pyval option)) list \<Rightarrow> payload" where
  "field_values [] = []"
| "field_values ((f, Inr (Some v)) # rs) = (f, v) # field_values rs"
| "field_values ((f, _) # rs) = field_values rs"

definition to_internal_value :: "string list \<Rightarrow> run_field \<Rightarrow> payload \<Rightarrow> error + payload" where
  "to_internal_value writable run data =
     (let results = map (\<lambda>f. (f, run f (map_of data f))) writable in
      if list_ex (\<lambda>r. isl (snd r)) results
      then Inl (ValidationError (MsgDict (field_errors results)))
      else Inr (field_values results))"

definition ModelSerializer_update :: "User \<Rightarrow> payload \<Rightarrow> User" where
  "ModelSerializer_update instance validated_data =
     fold (\<lambda>kv u. setattr u (fst kv) (snd kv)) validated_data instance"

definition ModelSerializer_save :: "string list \<Rightarrow> run_field \<Rightarrow> User \<Rightarrow> payload \<Rightarrow> error option \<times> User" where
  "ModelSerializer_save writable run instance data =
     (case to_internal_value writable run data of
        Inl e \<Rightarrow> (Some e, instance)
      | Inr validated_data \<Rightarrow> (None, ModelSerializer_update instance validated_data))"

definition ProfileSerializer_save :: "run_field \<Rightarrow> User \<Rightarrow> payload \<Rightarrow> error option \<times> User" where
  "ProfileSerializer_save =
     ModelSerializer_save (ModelSerializer_writable_fields ProfileSerializer_Meta)"

definition UserSerializer_save :: "run_field \<Rightarrow> User \<Rightarrow> payload \<Rightarrow> error option \<times> User" where
  "UserSerializer_save =
     ModelSerializer_save (HyperlinkedModelSerializer_writable_fields UserSerializer_Meta)"

subsection \<open>Example data\<close>

definition alice :: User where
  "alice =
     \<lparr>name = ''Alice'', email = ''alice@example.com'', password = ''hash-of-Secret123'',
      date_joined = 1420070400, email_verification_required = True\<rparr>"

definition carol :: User where
  "carol =
     \<lparr>name = ''Carol'', email = ''carol@example.com'', password = ''hash-of-Passw0rd9'',
      date_joined = 1420156800, email_verification_required = False\<rparr>"

definition users :: objects where
  "users = [''alice@example.com'' \<mapsto> alice, ''carol@example.com'' \<mapsto> carol]"

text \<open>
  Two more managers for the examples. \<open>iexact_manager\<close> matches without regard to case:
  it looks the lower-cased key up in a table whose keys are lower-cased. \<open>echo_manager\<close>
  finds an account for every key and reports, as the email of that account, the key it
  was asked for.
\<close>

definition iexact_manager :: "objects \<Rightarrow> string \<Rightarrow> error + User" where
  "iexact_manager objs key = get_by_natural_key objs (lower key)"

definition echo_manager :: "string \<Rightarrow> error + User" where
  "echo_manager key = Inr (alice\<lparr>email := key\<rparr>)"

text \<open>A toy hasher for the examples: the hash of \<open>p\<close> is \<open>hash-of-p\<close>.\<close>

definition toy_hasher :: hasher where
  "toy_hasher =
     \<lparr>make_password = (\<lambda>raw. ''hash-of-'' @ raw),
      verify_password = (\<lambda>raw encoded. encoded = ''hash-of-'' @ raw)\<rparr>"

section \<open>Helper lemmas\<close>

lemma map_of_filter_key:
  "map_of (filter (\<lambda>kv. fst kv \<noteq> k) d) k' = (if k' = k then None else map_of d k')"
  by (induction d) auto

lemma lower_examples:
  "lower ''Alice@Example.COM'' = ''alice@example.com''"
  "lower ''alice@example.com'' = ''alice@example.com''"
  "lower ''Alice@Example.com'' = ''alice@example.com''"
  "lower ''Bob@Example.com'' = ''bob@example.com''"
  by (simp_all add: lower_def lower_char_def)

lemma users_lookup:
  "get_by_natural_key users ''alice@example.com'' = Inr alice"
  "get_by_natural_key users ''carol@example.com'' = Inr carol"
  "get_by_natural_key users ''bob@example.com'' = Inl DoesNotExist"
  "get_by_natural_key users ''Alice@Example.com'' = Inl DoesNotExist"
  by (simp_all add: get_by_natural_key_def users_def)

lemma with_manager_table:
  "ValidateEmailMixin_validate_email objs value =
     ValidateEmailMixin_validate_email_with (get_by_natural_key objs) value"
  "ResendConfirmationEmailSerializer_validate_email objs self e =
     ResendConfirmationEmailSerializer_validate_email_with (get_by_natural_key objs) self e"
  by (simp_all add: ValidateEmailMixin_validate_email_def
      ValidateEmailMixin_validate_email_with_def
      ResendConfirmationEmailSerializer_validate_email_def
      ResendConfirmationEmailSerializer_validate_email_with_def)

lemma Serializer_save_table:
  "snd (snd (Serializer_save update objs u validated_data)) = objs"
  by (simp add: Serializer_save_def split: prod.splits)

lemma length_strip: "length (strip s) \<le> length s"
proof -
  have "length (strip s) \<le> length (dropWhile isspace s)"
    unfolding strip_def using length_dropWhile_le [of isspace "rev (dropWhile isspace s)"]
    by simp
  also have "\<dots> \<le> length s"
    by (rule length_dropWhile_le)
  finally show ?thesis .
qed

lemma decimal_8: "decimal 8 = ''8''"
  by (simp add: decimal.simps digit_char_def)

lemma min_length_rejects:
  "min_length field = Some limit \<Longrightarrow> length value < limit \<Longrightarrow>
     \<exists>errors. errors \<noteq> []
       \<and> CharField_run_validators field value = Inl (ValidationError (MsgList errors))"
  by (simp add: CharField_run_validators_def MinLengthValidator_def Let_def)

lemma min_length_rejects_run_validation:
  assumes "min_length field = Some limit" and "length value < limit"
  shows "\<exists>errors. errors \<noteq> []
           \<and> CharField_run_validation field value = Inl (ValidationError (MsgList errors))"
proof (cases "value = [] \<or> strip value = []")
  case True
  then show ?thesis by (simp add: CharField_run_validation_def)
next
  case False
  from assms(2) length_strip [of "value"] have "length (strip value) < limit"
    by simp
  from min_length_rejects [OF assms(1) this] False show ?thesis
    by (simp add: CharField_run_validation_def)
qed

lemma setattr_email_frame: "attr \<noteq> ''email'' \<Longrightarrow> email (setattr u attr v) = email u"
  by (simp add: setattr_def split: pyval.splits)

lemma setattr_date_joined_frame:
  "attr \<noteq> ''date_joined'' \<Longrightarrow> date_joined (setattr u attr v) = date_joined u"
  by (simp add: setattr_def split: pyval.splits)

lemma field_values_keys: "fst ` set (field_values rs) \<subseteq> fst ` set rs"
  by (induction rs rule: field_values.induct) auto

lemma update_email_frame:
  "''email'' \<notin> fst ` set validated_data \<Longrightarrow>
     email (ModelSerializer_update u validated_data) = email u"
  unfolding ModelSerializer_update_def
  by (induction validated_data arbitrary: u) (auto simp: setattr_email_frame)

lemma update_date_joined_frame:
  "''date_joined'' \<notin> fst ` set validated_data \<Longrightarrow>
     date_joined (ModelSerializer_update u validated_data) = date_joined u"
  unfolding ModelSerializer_update_def
  by (induction validated_data arbitrary: u) (auto simp: setattr_date_joined_frame)

text \<open>Validation keeps nothing of the payload but values of writable fields.\<close>

lemma to_internal_value_keys:
  assumes "to_internal_value writable run data = Inr validated_data"
  shows "fst ` set validated_data \<subseteq> set writable"
proof -
  let ?results = "map (\<lambda>f. (f, run f (map_of data f))) writable"
  from assms have "validated_data = field_values ?results"
    by (simp add: to_internal_value_def Let_def split: if_splits)
  then have "fst ` set validated_data \<subseteq> fst ` set ?results"
    by (simp only: field_values_keys)
  also have "fst ` set ?results = set writable"
    by force
  finally show ?thesis .
qed

lemma save_email_frame:
  assumes "''email'' \<notin> set writable"
  shows "email (snd (ModelSerializer_save writable run u data)) = email u"
proof (cases "to_internal_value writable run data")
  case (Inl e)
  then show ?thesis by (simp add: ModelSerializer_save_def)
next
  case (Inr validated_data)
  with assms to_internal_value_keys have "''email'' \<notin> fst ` set validated_data"
    by blast
  with Inr show ?thesis
    by (simp add: ModelSerializer_save_def update_email_frame)
qed

lemma save_date_joined_frame:
  assumes "''date_joined'' \<notin> set writable"
  shows "date_joined (snd (ModelSerializer_save writable run u data)) = date_joined u"
proof (cases "to_internal_value writable run data")
  case (Inl e)
  then show ?thesis by (simp add: ModelSerializer_save_def)
next
  case (Inr validated_data)
  with assms to_internal_value_keys have "''date_joined'' \<notin> fst ` set validated_data"
    by blast
  with Inr show ?thesis
    by (simp add: ModelSerializer_save_def update_date_joined_frame)
qed

lemma writable_Profile: "ModelSerializer_writable_fields ProfileSerializer_Meta = [''name'']"
  by (simp add: ModelSerializer_writable_fields_def ProfileSerializer_Meta_def)

lemma writable_User:
  "HyperlinkedModelSerializer_writable_fields UserSerializer_Meta = [''name'']"
  by (simp add: HyperlinkedModelSerializer_writable_fields_def
      ModelSerializer_writable_fields_def UserSerializer_Meta_def)

lemma profile_save_example:
  "ProfileSerializer_save (\<lambda>f v. Inr v) alice
     [(''name'', Str ''Al''), (''email'', Str ''al@example.org''), (''date_joined'', DateTime 0)]
     = (None, alice\<lparr>name := ''Al''\<rparr>)"
  by (simp add: ProfileSerializer_save_def writable_Profile ModelSerializer_save_def
      to_internal_value_def ModelSerializer_update_def setattr_def)

text \<open>
  The read-only declaration is what protects the email: \<open>UserSerializerCreate\<close> declares
  only \<open>date_joined\<close> read-only, and there a payload does set the email.
\<close>

lemma writable_UserCreate:
  "HyperlinkedModelSerializer_writable_fields UserSerializerCreate_Meta = [''name'', ''email'']"
  by (simp add: HyperlinkedModelSerializer_writable_fields_def
      ModelSerializer_writable_fields_def UserSerializerCreate_Meta_def UserSerializer_Meta_def)

lemma user_create_sets_email:
  "snd (ModelSerializer_save
          (HyperlinkedModelSerializer_writable_fields UserSerializerCreate_Meta)
          (\<lambda>f v. Inr v) alice
          [(''name'', Str ''Al''), (''email'', Str ''al@example.org''), (''date_joined'', DateTime 0)])
     = alice\<lparr>name := ''Al'', email := ''al@example.org''\<rparr>"
  by (simp add: writable_UserCreate ModelSerializer_save_def to_internal_value_def
      ModelSerializer_update_def setattr_def)

section \<open>The claims\<close>

subsection \<open>C1: duplicate email on registration\<close>

text \<open>
  C1. When an account is stored under the lower-cased form of an email \<open>E\<close>, registration
  with any email \<open>E'\<close> that has the same lower-cased form, so \<open>E\<close> in any letter case,
  fails with the duplicate-email validation error. When no account is stored under the
  lower-cased form of \<open>E\<close>, the email validation succeeds and returns \<open>E\<close> lower-cased.
\<close>

theorem validate_email_duplicate_or_lowercased:
  "((\<exists>u. get_by_natural_key objs (lower E) = Inr u) \<longrightarrow>
      (\<forall>E'. lower E' = lower E \<longrightarrow>
         RegistrationSerializer_validate_email objs E' =
           Inl (ValidationError (Msg ''That email address has already been registered.''))))
   \<and> (get_by_natural_key objs (lower E) = Inl DoesNotExist \<longrightarrow>
         RegistrationSerializer_validate_email objs E = Inr (lower E))"
  by (auto simp: RegistrationSerializer_validate_email_def ValidateEmailMixin_validate_email_def)

theorem validate_email_duplicate_or_lowercased_witness:
  "RegistrationSerializer_validate_email users ''Alice@Example.COM'' =
      Inl (ValidationError (Msg ''That email address has already been registered.''))
   \<and> RegistrationSerializer_validate_email users ''Bob@Example.com'' = Inr ''bob@example.com''"
proof -
  have same: "lower ''Alice@Example.COM'' = lower ''alice@example.com''"
    by (simp add: lower_examples)
  have stored: "\<exists>u. get_by_natural_key users (lower ''alice@example.com'') = Inr u"
    by (simp add: lower_examples users_lookup)
  have absent: "get_by_natural_key users (lower ''Bob@Example.com'') = Inl DoesNotExist"
    by (simp add: lower_examples users_lookup)
  from validate_email_duplicate_or_lowercased [of users "''alice@example.com''"] stored same
  have dup: "RegistrationSerializer_validate_email users ''Alice@Example.COM'' =
      Inl (ValidationError (Msg ''That email address has already been registered.''))"
    by blast
  from validate_email_duplicate_or_lowercased [of users "''Bob@Example.com''"] absent
  have fresh: "RegistrationSerializer_validate_email users ''Bob@Example.com'' = Inr ''bob@example.com''"
    by (simp add: lower_examples)
  from dup fresh show ?thesis by simp
qed

subsection \<open>C2: the key each serializer hands to the lookup\<close>

text \<open>
  What holds of the code, for every manager. The outcome of the mixin's \<open>validate_email\<close>,
  which registration and user creation inherit, rests on the manager's answer for the
  lower-cased email only, and the email it returns for storage is the lower-cased one.
  The outcome of the resend-confirmation \<open>validate_email\<close> rests on the manager's answer
  for the email as submitted only, and the email it returns is the one submitted.
\<close>

lemma manager_examples:
  "get_by_natural_key users (lower ''Alice@Example.com'') = Inr alice"
  "iexact_manager users (lower ''Alice@Example.com'') = Inr alice"
  "get_by_natural_key users ''Alice@Example.com'' = Inl DoesNotExist"
  "iexact_manager users ''Alice@Example.com'' = Inr alice"
  "iexact_manager users ''Bob@Example.com'' = Inl DoesNotExist"
  "iexact_manager users ''alice@example.com'' = Inr alice"
  "iexact_manager users ''bob@example.com'' = Inl DoesNotExist"
  by (simp_all add: iexact_manager_def lower_def lower_char_def get_by_natural_key_def users_def)

text \<open>
  C2, as amended. Registration and user creation lower-case the email before the lookup
  by natural key and return the lower-cased email; the resend-confirmation serializer
  hands the email to the lookup as submitted, leaving any matching without regard to case
  to the manager, and returns the email as submitted.
\<close>

theorem lookup_key_of_each_serializer:
  "(m (lower v) = m' (lower v) \<longrightarrow>
      ValidateEmailMixin_validate_email_with m v = ValidateEmailMixin_validate_email_with m' v)
   \<and> (ValidateEmailMixin_validate_email_with m v = Inr r \<longrightarrow> r = lower v)
   \<and> RegistrationSerializer_validate_email objs v =
       ValidateEmailMixin_validate_email_with (get_by_natural_key objs) v
   \<and> UserSerializerCreate_validate_email objs v =
       ValidateEmailMixin_validate_email_with (get_by_natural_key objs) v
   \<and> (m e = m' e \<longrightarrow>
        ResendConfirmationEmailSerializer_validate_email_with m self e =
          ResendConfirmationEmailSerializer_validate_email_with m' self e)
   \<and> (fst (ResendConfirmationEmailSerializer_validate_email_with m self e) = Inr r' \<longrightarrow> r' = e)"
proof -
  have mixin_key: "m (lower v) = m' (lower v) \<longrightarrow>
      ValidateEmailMixin_validate_email_with m v = ValidateEmailMixin_validate_email_with m' v"
    by (simp add: ValidateEmailMixin_validate_email_with_def)
  have mixin_result: "ValidateEmailMixin_validate_email_with m v = Inr r \<longrightarrow> r = lower v"
    by (auto simp: ValidateEmailMixin_validate_email_with_def Let_def
        split: sum.splits error.splits)
  have inherited:
    "RegistrationSerializer_validate_email objs v =
       ValidateEmailMixin_validate_email_with (get_by_natural_key objs) v"
    "UserSerializerCreate_validate_email objs v =
       ValidateEmailMixin_validate_email_with (get_by_natural_key objs) v"
    by (simp_all add: RegistrationSerializer_validate_email_def
        UserSerializerCreate_validate_email_def with_manager_table)
  have resend_key: "m e = m' e \<longrightarrow>
      ResendConfirmationEmailSerializer_validate_email_with m self e =
        ResendConfirmationEmailSerializer_validate_email_with m' self e"
    by (simp add: ResendConfirmationEmailSerializer_validate_email_with_def)
  have resend_result:
    "fst (ResendConfirmationEmailSerializer_validate_email_with m self e) = Inr r' \<longrightarrow> r' = e"
    by (auto simp: ResendConfirmationEmailSerializer_validate_email_with_def Let_def
        split: sum.splits error.splits if_splits)
  from mixin_key mixin_result inherited resend_key resend_result show ?thesis
    by blast
qed

text \<open>
  The witness: the table of the examples behind a manager that matches exactly and
  behind one that matches without regard to case.
\<close>

theorem lookup_key_of_each_serializer_witness:
  "ValidateEmailMixin_validate_email_with (get_by_natural_key users) ''Alice@Example.com'' =
     ValidateEmailMixin_validate_email_with (iexact_manager users) ''Alice@Example.com''
   \<and> ValidateEmailMixin_validate_email_with (iexact_manager users) ''Bob@Example.com'' =
       Inr ''bob@example.com''
   \<and> ''bob@example.com'' = lower ''Bob@Example.com''
   \<and> ResendConfirmationEmailSerializer_validate_email_with (get_by_natural_key users)
         \<lparr>user = None\<rparr> ''alice@example.com'' =
       ResendConfirmationEmailSerializer_validate_email_with (iexact_manager users)
         \<lparr>user = None\<rparr> ''alice@example.com''
   \<and> fst (ResendConfirmationEmailSerializer_validate_email_with (iexact_manager users)
         \<lparr>user = None\<rparr> ''Alice@Example.com'') = Inr ''Alice@Example.com''"
proof -
  have agree_lower: "get_by_natural_key users (lower ''Alice@Example.com'') =
      iexact_manager users (lower ''Alice@Example.com'')"
    by (simp add: manager_examples)
  have agree_same: "get_by_natural_key users ''alice@example.com'' =
      iexact_manager users ''alice@example.com''"
    by (simp add: manager_examples users_lookup(1))
  have fresh: "ValidateEmailMixin_validate_email_with (iexact_manager users) ''Bob@Example.com'' =
      Inr ''bob@example.com''"
    by (simp add: ValidateEmailMixin_validate_email_with_def lower_examples manager_examples)
  have required: "email_verification_required alice"
    by (simp add: alice_def)
  have found: "fst (ResendConfirmationEmailSerializer_validate_email_with (iexact_manager users)
      \<lparr>user = None\<rparr> ''Alice@Example.com'') = Inr ''Alice@Example.com''"
    by (simp add: ResendConfirmationEmailSerializer_validate_email_with_def
        manager_examples required)
  note at_alice = lookup_key_of_each_serializer
    [where m = "get_by_natural_key users" and m' = "iexact_manager users"
       and v = "''Alice@Example.com''" and e = "''alice@example.com''"
       and self = "\<lparr>user = None\<rparr>"]
  note at_bob = lookup_key_of_each_serializer
    [where m = "iexact_manager users" and v = "''Bob@Example.com''"
       and r = "''bob@example.com''"]
  from at_alice agree_lower
  have first: "ValidateEmailMixin_validate_email_with (get_by_natural_key users) ''Alice@Example.com'' =
      ValidateEmailMixin_validate_email_with (iexact_manager users) ''Alice@Example.com''"
    by blast
  from at_bob fresh
  have second: "''bob@example.com'' = lower ''Bob@Example.com''"
    by blast
  from at_alice agree_same
  have third: "ResendConfirmationEmailSerializer_validate_email_with (get_by_natural_key users)
        \<lparr>user = None\<rparr> ''alice@example.com'' =
      ResendConfirmationEmailSerializer_validate_email_with (iexact_manager users)
        \<lparr>user = None\<rparr> ''alice@example.com''"
    by blast
  from lookup_key_of_each_serializer
    [where m = "iexact_manager users" and e = "''Alice@Example.com''"
       and self = "\<lparr>user = None\<rparr>" and r' = "''Alice@Example.com''"] found
  have fourth: "fst (ResendConfirmationEmailSerializer_validate_email_with (iexact_manager users)
      \<lparr>user = None\<rparr> ''Alice@Example.com'') = Inr ''Alice@Example.com''"
    by blast
  from first fresh second third fourth show ?thesis by blast
qed

text \<open>
  C2 as it is written says that the lookup of every serializer, the resend-confirmation
  serializer included, is performed on the lower-cased email. Were that so, two managers
  that give the same answer for the lower-cased email would lead the resend-confirmation
  \<open>validate_email\<close> to the same outcome, and a manager that reports the key it was asked
  for would report the lower-cased one. For \<open>Alice@Example.com\<close> neither is the case:
  the exact manager and the manager without regard to case agree on
  \<open>alice@example.com\<close> and lead to different outcomes, and the key reported, which is
  also the email returned, is \<open>Alice@Example.com\<close>.
\<close>

theorem resend_lookup_key_counterexample:
  "get_by_natural_key users (lower ''Alice@Example.com'') =
     iexact_manager users (lower ''Alice@Example.com'')
   \<and> ResendConfirmationEmailSerializer_validate_email_with (get_by_natural_key users)
         \<lparr>user = None\<rparr> ''Alice@Example.com'' \<noteq>
       ResendConfirmationEmailSerializer_validate_email_with (iexact_manager users)
         \<lparr>user = None\<rparr> ''Alice@Example.com''
   \<and> ResendConfirmationEmailSerializer_validate_email_with echo_manager
         \<lparr>user = None\<rparr> ''Alice@Example.com'' =
       (Inr ''Alice@Example.com'', \<lparr>user = Some (alice\<lparr>email := ''Alice@Example.com''\<rparr>)\<rparr>)
   \<and> ''Alice@Example.com'' \<noteq> lower ''Alice@Example.com''"
proof -
  have agree: "get_by_natural_key users (lower ''Alice@Example.com'') =
      iexact_manager users (lower ''Alice@Example.com'')"
    by (simp add: manager_examples)
  have required: "email_verification_required alice"
    by (simp add: alice_def)
  have exact: "fst (ResendConfirmationEmailSerializer_validate_email_with (get_by_natural_key users)
      \<lparr>user = None\<rparr> ''Alice@Example.com'') =
      Inl (ValidationError (Msg ''A user with this email address does not exist.''))"
    by (simp add: ResendConfirmationEmailSerializer_validate_email_with_def manager_examples)
  have iexact: "fst (ResendConfirmationEmailSerializer_validate_email_with (iexact_manager users)
      \<lparr>user = None\<rparr> ''Alice@Example.com'') = Inr ''Alice@Example.com''"
    by (simp add: ResendConfirmationEmailSerializer_validate_email_with_def
        manager_examples required)
  from exact iexact
  have differ: "ResendConfirmationEmailSerializer_validate_email_with (get_by_natural_key users)
        \<lparr>user = None\<rparr> ''Alice@Example.com'' \<noteq>
      ResendConfirmationEmailSerializer_validate_email_with (iexact_manager users)
        \<lparr>user = None\<rparr> ''Alice@Example.com''"
    by auto
  have echoed: "ResendConfirmationEmailSerializer_validate_email_with echo_manager
        \<lparr>user = None\<rparr> ''Alice@Example.com'' =
      (Inr ''Alice@Example.com'', \<lparr>user = Some (alice\<lparr>email := ''Alice@Example.com''\<rparr>)\<rparr>)"
    by (simp add: ResendConfirmationEmailSerializer_validate_email_with_def echo_manager_def
        required)
  have raw: "''Alice@Example.com'' \<noteq> lower ''Alice@Example.com''"
    by (simp add: lower_examples)
  from agree differ echoed raw show ?thesis
    by blast
qed

subsection \<open>C3: the two passwords of a registration\<close>

text \<open>
  C3. When the attributes of a registration hold a \<open>password2\<close> that differs from
  \<open>password\<close> (a missing \<open>password\<close> differs from every \<open>password2\<close>), \<open>validate\<close> fails with
  the mismatch error under the key \<open>password2\<close>. When the two are equal, \<open>validate\<close>
  passes, and the validated data it returns has no \<open>password2\<close> and every other key as
  submitted; this is the data \<open>create\<close> hands to the manager.
\<close>

theorem registration_password_mismatch:
  "(dict_get attrs ''password2'' = Some p2 \<and> dict_get attrs ''password'' \<noteq> Some p2 \<longrightarrow>
      RegistrationSerializer_validate attrs =
        Inl (ValidationError (MsgDict [(''password2'', ''Your passwords do not match.'')])))
   \<and> (dict_get attrs ''password2'' = Some p \<and> dict_get attrs ''password'' = Some p \<longrightarrow>
        (\<exists>validated_data.
           RegistrationSerializer_validate attrs = Inr validated_data
           \<and> dict_get validated_data ''password2'' = None
           \<and> ''password2'' \<notin> fst ` set validated_data
           \<and> (\<forall>k. k \<noteq> ''password2'' \<longrightarrow> dict_get validated_data k = dict_get attrs k)
           \<and> RegistrationSerializer_create objects_create validated_data =
               objects_create (filter (\<lambda>kv. fst kv \<noteq> ''password2'') attrs)))"
  by (auto simp: RegistrationSerializer_validate_def RegistrationSerializer_create_def
      dict_pop_def dict_get_def map_of_filter_key)

theorem registration_password_mismatch_witness:
  "RegistrationSerializer_validate
      [(''name'', ''Bob''), (''email'', ''bob@example.com''),
       (''password'', ''Secret123''), (''password2'', ''Secret124'')] =
     Inl (ValidationError (MsgDict [(''password2'', ''Your passwords do not match.'')]))
   \<and> (\<exists>validated_data.
         RegistrationSerializer_validate
           [(''name'', ''Bob''), (''email'', ''bob@example.com''),
            (''password'', ''Secret123''), (''password2'', ''Secret123'')] = Inr validated_data
         \<and> dict_get validated_data ''password2'' = None
         \<and> RegistrationSerializer_create id validated_data =
             [(''name'', ''Bob''), (''email'', ''bob@example.com''), (''password'', ''Secret123'')])"
proof -
  let ?bad = "[(''name'', ''Bob''), (''email'', ''bob@example.com''),
               (''password'', ''Secret123''), (''password2'', ''Secret124'')]"
  let ?good = "[(''name'', ''Bob''), (''email'', ''bob@example.com''),
                (''password'', ''Secret123''), (''password2'', ''Secret123'')]"
  have bad: "dict_get ?bad ''password2'' = Some ''Secret124''
      \<and> dict_get ?bad ''password'' \<noteq> Some ''Secret124''"
    by (simp add: dict_get_def)
  have good: "dict_get ?good ''password2'' = Some ''Secret123''
      \<and> dict_get ?good ''password'' = Some ''Secret123''"
    by (simp add: dict_get_def)
  from registration_password_mismatch [of ?bad "''Secret124''"] bad
  have first: "RegistrationSerializer_validate ?bad =
      Inl (ValidationError (MsgDict [(''password2'', ''Your passwords do not match.'')]))"
    by blast
  from registration_password_mismatch [of ?good _ "''Secret123''" id] good
  have second: "\<exists>validated_data.
      RegistrationSerializer_validate ?good = Inr validated_data
      \<and> dict_get validated_data ''password2'' = None
      \<and> RegistrationSerializer_create id validated_data =
          [(''name'', ''Bob''), (''email'', ''bob@example.com''), (''password'', ''Secret123'')]"
    by auto
  from first second show ?thesis by blast
qed

subsection \<open>C4: changing the password\<close>

text \<open>
  What \<open>update\<close> does to the instance it is given. For validated data that holds an
  \<open>old_password\<close>: when the hasher does not verify it against the hash in the instance,
  \<open>update\<close> fails with the invalid-password error under the key \<open>old_password\<close>; when it
  verifies and the data holds a \<open>new_password\<close>, \<open>update\<close> returns the instance with its
  hash replaced by the hash of \<open>new_password\<close>, and nothing else changed.
\<close>

lemma password_change_update:
  "dict_get validated_data ''old_password'' = Some old \<Longrightarrow>
     (\<not> verify_password H old (password u) \<longrightarrow>
        fst (PasswordChangeSerializer_update H u validated_data) =
          Some (ValidationError (MsgDict [(''old_password'', ''Invalid password.'')])))
     \<and> (verify_password H old (password u)
          \<and> dict_get validated_data ''new_password'' = Some new \<longrightarrow>
          PasswordChangeSerializer_update H u validated_data =
            (None, u\<lparr>password := make_password H new\<rparr>))"
  by (simp add: PasswordChangeSerializer_update_def dict_item_def dict_get_def
      check_password_def set_password_def)

text \<open>
  C4 says that, when the old password verifies, the stored hash of the account is
  replaced with a hash of \<open>new_password\<close>. The error half holds (the lemma above). The
  other half holds of the instance in memory only: \<open>update\<close> calls \<open>set_password\<close> and
  returns without \<open>instance.save()\<close>, so the account in the table keeps its hash. Alice
  changes her password from \<open>Secret123\<close> to \<open>NewSecret9\<close>: the save reports no error and
  returns an instance with the new hash, while the account the next request loads from
  the table still has the old hash, which verifies \<open>Secret123\<close> and not \<open>NewSecret9\<close>.
\<close>

theorem password_change_not_saved:
  "Serializer_save (PasswordChangeSerializer_update toy_hasher) users alice
      [(''old_password'', ''Secret123''), (''new_password'', ''NewSecret9''),
       (''new_password2'', ''NewSecret9'')] =
     (None, alice\<lparr>password := ''hash-of-NewSecret9''\<rparr>, users)
   \<and> get_by_natural_key users (email alice) = Inr alice
   \<and> password alice = ''hash-of-Secret123''
   \<and> check_password toy_hasher alice ''Secret123''
   \<and> \<not> check_password toy_hasher alice ''NewSecret9''"
proof -
  have saved: "Serializer_save (PasswordChangeSerializer_update toy_hasher) users alice
      [(''old_password'', ''Secret123''), (''new_password'', ''NewSecret9''),
       (''new_password2'', ''NewSecret9'')] =
     (None, alice\<lparr>password := ''hash-of-NewSecret9''\<rparr>, users)"
    by (simp add: Serializer_save_def PasswordChangeSerializer_update_def dict_item_def
        check_password_def set_password_def toy_hasher_def alice_def)
  have loaded: "get_by_natural_key users (email alice) = Inr alice"
    using users_lookup(1) by (simp add: alice_def)
  have hash: "password alice = ''hash-of-Secret123''"
    by (simp add: alice_def)
  have old_verifies: "check_password toy_hasher alice ''Secret123''"
    by (simp add: check_password_def toy_hasher_def alice_def)
  have new_refused: "\<not> check_password toy_hasher alice ''NewSecret9''"
    by (simp add: check_password_def toy_hasher_def alice_def)
  from saved loaded hash old_verifies new_refused show ?thesis
    by blast
qed

subsection \<open>C5: the two new passwords of a change and of a reset\<close>

text \<open>
  C5. When the attributes of a password change or of a password reset hold a
  \<open>new_password2\<close> that differs from \<open>new_password\<close> (a missing \<open>new_password\<close> differs
  from every \<open>new_password2\<close>), \<open>validate\<close> of either serializer fails with the mismatch
  error under the key \<open>new_password2\<close>.
\<close>

theorem new_password_mismatch:
  "dict_get attrs ''new_password2'' = Some p2 \<Longrightarrow> dict_get attrs ''new_password'' \<noteq> Some p2 \<Longrightarrow>
     PasswordChangeSerializer_validate attrs =
       Inl (ValidationError (MsgDict [(''new_password2'', ''Your new passwords do not match.'')]))
     \<and> PasswordResetSerializer_validate attrs =
       Inl (ValidationError (MsgDict [(''new_password2'', ''Your new passwords do not match.'')]))"
  by (simp add: PasswordChangeSerializer_validate_def PasswordResetSerializer_validate_def
      dict_item_def dict_get_def)

theorem new_password_mismatch_witness:
  "PasswordChangeSerializer_validate
      [(''old_password'', ''Secret123''), (''new_password'', ''NewSecret9''),
       (''new_password2'', ''NewSecret8'')] =
     Inl (ValidationError (MsgDict [(''new_password2'', ''Your new passwords do not match.'')]))
   \<and> PasswordResetSerializer_validate
      [(''old_password'', ''Secret123''), (''new_password'', ''NewSecret9''),
       (''new_password2'', ''NewSecret8'')] =
     Inl (ValidationError (MsgDict [(''new_password2'', ''Your new passwords do not match.'')]))"
proof -
  let ?attrs = "[(''old_password'', ''Secret123''), (''new_password'', ''NewSecret9''),
                 (''new_password2'', ''NewSecret8'')]"
  have second: "dict_get ?attrs ''new_password2'' = Some ''NewSecret8''"
    by (simp add: dict_get_def)
  have differs: "dict_get ?attrs ''new_password'' \<noteq> Some ''NewSecret8''"
    by (simp add: dict_get_def)
  from new_password_mismatch [OF second differs] show ?thesis .
qed

subsection \<open>C6: resending the confirmation email\<close>

text \<open>
  C6. \<open>validate_email\<close> of the resend-confirmation serializer: when the lookup of the
  email finds no account it fails with the not-found error and leaves the serializer as
  it was; when the account found does not have \<open>email_verification_required\<close> set it fails
  with the already-verified error; when the account found has it set, it returns the
  email as given and the serializer's \<open>user\<close> attribute is the account found.
\<close>

theorem resend_confirmation_validate_email:
  "(get_by_natural_key objs e = Inl DoesNotExist \<longrightarrow>
      ResendConfirmationEmailSerializer_validate_email objs self e =
        (Inl (ValidationError (Msg ''A user with this email address does not exist.'')), self))
   \<and> (get_by_natural_key objs e = Inr u \<and> \<not> email_verification_required u \<longrightarrow>
        fst (ResendConfirmationEmailSerializer_validate_email objs self e) =
          Inl (ValidationError (Msg ''User email address is already verified.'')))
   \<and> (get_by_natural_key objs e = Inr u \<and> email_verification_required u \<longrightarrow>
        fst (ResendConfirmationEmailSerializer_validate_email objs self e) = Inr e
        \<and> user (snd (ResendConfirmationEmailSerializer_validate_email objs self e)) = Some u)"
  by (simp add: ResendConfirmationEmailSerializer_validate_email_def)

theorem resend_confirmation_validate_email_witness:
  "ResendConfirmationEmailSerializer_validate_email users \<lparr>user = None\<rparr> ''bob@example.com'' =
     (Inl (ValidationError (Msg ''A user with this email address does not exist.'')), \<lparr>user = None\<rparr>)
   \<and> fst (ResendConfirmationEmailSerializer_validate_email users \<lparr>user = None\<rparr> ''carol@example.com'') =
       Inl (ValidationError (Msg ''User email address is already verified.''))
   \<and> fst (ResendConfirmationEmailSerializer_validate_email users \<lparr>user = None\<rparr> ''alice@example.com'') =
       Inr ''alice@example.com''
   \<and> user (snd (ResendConfirmationEmailSerializer_validate_email users \<lparr>user = None\<rparr> ''alice@example.com'')) =
       Some alice"
proof -
  have verified: "\<not> email_verification_required carol"
    by (simp add: carol_def)
  have required: "email_verification_required alice"
    by (simp add: alice_def)
  from resend_confirmation_validate_email [of users "''bob@example.com''" "\<lparr>user = None\<rparr>"]
    users_lookup(3)
  have unknown: "ResendConfirmationEmailSerializer_validate_email users \<lparr>user = None\<rparr> ''bob@example.com'' =
     (Inl (ValidationError (Msg ''A user with this email address does not exist.'')), \<lparr>user = None\<rparr>)"
    by blast
  from resend_confirmation_validate_email [of users "''carol@example.com''" "\<lparr>user = None\<rparr>" carol]
    users_lookup(2) verified
  have already: "fst (ResendConfirmationEmailSerializer_validate_email users \<lparr>user = None\<rparr> ''carol@example.com'') =
       Inl (ValidationError (Msg ''User email address is already verified.''))"
    by blast
  from resend_confirmation_validate_email [of users "''alice@example.com''" "\<lparr>user = None\<rparr>" alice]
    users_lookup(1) required
  have found: "fst (ResendConfirmationEmailSerializer_validate_email users \<lparr>user = None\<rparr> ''alice@example.com'') =
       Inr ''alice@example.com''
     \<and> user (snd (ResendConfirmationEmailSerializer_validate_email users \<lparr>user = None\<rparr> ''alice@example.com'')) =
       Some alice"
    by blast
  from unknown already found show ?thesis by blast
qed

subsection \<open>C7: the read-only attributes of a profile\<close>

text \<open>
  C7. Saving a profile through \<open>ProfileSerializer\<close> leaves the email and \<open>date_joined\<close> of
  the account as they were, for every payload, whatever the payload holds under \<open>email\<close>
  and \<open>date_joined\<close>, and however the fields treat their input; the one writable field of
  the serializer is \<open>name\<close>. The same holds for \<open>UserSerializer\<close>, which declares the same
  read-only fields.
\<close>

theorem profile_read_only:
  "email (snd (ProfileSerializer_save run instance data)) = email instance
   \<and> date_joined (snd (ProfileSerializer_save run instance data)) = date_joined instance
   \<and> ModelSerializer_writable_fields ProfileSerializer_Meta = [''name'']
   \<and> email (snd (UserSerializer_save run instance data)) = email instance
   \<and> date_joined (snd (UserSerializer_save run instance data)) = date_joined instance"
  by (simp add: ProfileSerializer_save_def UserSerializer_save_def writable_Profile writable_User
      save_email_frame save_date_joined_frame)

subsection \<open>C8: resetting the password\<close>

text \<open>
  What \<open>validate\<close> and \<open>update\<close> do with the attributes and the instance they are given.
  When the attributes hold the same value under \<open>new_password\<close> and \<open>new_password2\<close>,
  \<open>validate\<close> passes them on unchanged and \<open>update\<close> returns the instance with its hash
  replaced by the hash of \<open>new_password\<close>. No old password takes part: the result is the
  same for every hash in the instance and does not depend on the verification function
  of the hasher.
\<close>

lemma password_reset_update:
  "dict_get attrs ''new_password'' = Some p \<Longrightarrow> dict_get attrs ''new_password2'' = Some p \<Longrightarrow>
     PasswordResetSerializer_validate attrs = Inr attrs
     \<and> PasswordResetSerializer_update H u attrs = (None, u\<lparr>password := make_password H p\<rparr>)
     \<and> PasswordResetSerializer_update (H\<lparr>verify_password := v\<rparr>) u attrs =
         PasswordResetSerializer_update H u attrs"
  by (simp add: PasswordResetSerializer_validate_def PasswordResetSerializer_update_def
      dict_item_def dict_get_def set_password_def)

text \<open>
  C8 says that the reset replaces the stored hash of the account with a hash of
  \<open>new_password\<close>, without any old-password verification. No old password is verified
  (the lemma above), but the replacement holds of the instance in memory only: \<open>update\<close>
  calls \<open>set_password\<close> and returns without \<open>instance.save()\<close>, so the account in the
  table keeps its hash. Alice resets her password to \<open>NewSecret9\<close>: validation passes,
  the save reports no error and returns an instance with the new hash, while the account
  the next request loads from the table still has the old hash, which does not verify
  \<open>NewSecret9\<close>.
\<close>

theorem password_reset_not_saved:
  "PasswordResetSerializer_validate
      [(''new_password'', ''NewSecret9''), (''new_password2'', ''NewSecret9'')] =
     Inr [(''new_password'', ''NewSecret9''), (''new_password2'', ''NewSecret9'')]
   \<and> Serializer_save (PasswordResetSerializer_update toy_hasher) users alice
        [(''new_password'', ''NewSecret9''), (''new_password2'', ''NewSecret9'')] =
       (None, alice\<lparr>password := ''hash-of-NewSecret9''\<rparr>, users)
   \<and> get_by_natural_key users (email alice) = Inr alice
   \<and> password alice = ''hash-of-Secret123''
   \<and> \<not> check_password toy_hasher alice ''NewSecret9''"
proof -
  have validated: "PasswordResetSerializer_validate
      [(''new_password'', ''NewSecret9''), (''new_password2'', ''NewSecret9'')] =
     Inr [(''new_password'', ''NewSecret9''), (''new_password2'', ''NewSecret9'')]"
    by (simp add: PasswordResetSerializer_validate_def dict_item_def dict_get_def)
  have saved: "Serializer_save (PasswordResetSerializer_update toy_hasher) users alice
      [(''new_password'', ''NewSecret9''), (''new_password2'', ''NewSecret9'')] =
     (None, alice\<lparr>password := ''hash-of-NewSecret9''\<rparr>, users)"
    by (simp add: Serializer_save_def PasswordResetSerializer_update_def dict_item_def
        set_password_def toy_hasher_def)
  have loaded: "get_by_natural_key users (email alice) = Inr alice"
    using users_lookup(1) by (simp add: alice_def)
  have hash: "password alice = ''hash-of-Secret123''"
    by (simp add: alice_def)
  have new_refused: "\<not> check_password toy_hasher alice ''NewSecret9''"
    by (simp add: check_password_def toy_hasher_def alice_def)
  from validated saved loaded hash new_refused show ?thesis
    by blast
qed

subsection \<open>C9: the minimum length of the password fields\<close>

text \<open>
  C9. Each of the fields \<open>password\<close> and \<open>password2\<close> of the registration, and
  \<open>new_password\<close> and \<open>new_password2\<close> of the password change and of the password reset,
  rejects every value of fewer than 8 characters with a validation error of the field,
  whatever the strength policy is and whatever it says about the value.
\<close>

theorem password_fields_min_length:
  "length value < 8 \<Longrightarrow>
     (\<forall>field \<in> {RegistrationSerializer_password validate_password_strength,
                   RegistrationSerializer_password2,
                   PasswordChangeSerializer_new_password validate_password_strength,
                   PasswordChangeSerializer_new_password2,
                   PasswordResetSerializer_new_password validate_password_strength,
                   PasswordResetSerializer_new_password2}.
        \<exists>errors. errors \<noteq> []
          \<and> CharField_run_validation field value = Inl (ValidationError (MsgList errors)))"
proof -
  assume short: "length value < 8"
  have "\<exists>errors. errors \<noteq> []
          \<and> CharField_run_validation field value = Inl (ValidationError (MsgList errors))"
    if "min_length field = Some 8" for field
    using that short by (rule min_length_rejects_run_validation)
  then show ?thesis
    by (simp add: RegistrationSerializer_password_def RegistrationSerializer_password2_def
        PasswordChangeSerializer_new_password_def PasswordChangeSerializer_new_password2_def
        PasswordResetSerializer_new_password_def PasswordResetSerializer_new_password2_def)
qed

text \<open>The witness: a policy that accepts everything, and the value \<open>Ab1\<close>.\<close>

theorem password_fields_min_length_witness:
  "(\<exists>errors. errors \<noteq> []
      \<and> CharField_run_validation (RegistrationSerializer_password (\<lambda>value. [])) ''Ab1'' =
          Inl (ValidationError (MsgList errors)))
   \<and> (\<exists>errors. errors \<noteq> []
      \<and> CharField_run_validation PasswordResetSerializer_new_password2 ''Ab1'' =
          Inl (ValidationError (MsgList errors)))
   \<and> CharField_run_validation (PasswordChangeSerializer_new_password (\<lambda>value. [])) ''Ab1'' =
       Inl (ValidationError (MsgList [''Ensure this field has at least 8 characters.'']))"
proof -
  have short: "length ''Ab1'' < 8"
    by simp
  have trimmed: "strip ''Ab1'' = ''Ab1''"
    by (simp add: strip_def isspace_def)
  have evaluated:
    "CharField_run_validation (PasswordChangeSerializer_new_password (\<lambda>value. [])) ''Ab1'' =
       Inl (ValidationError (MsgList [''Ensure this field has at least 8 characters.'']))"
    by (simp add: CharField_run_validation_def CharField_run_validators_def
        PasswordChangeSerializer_new_password_def MinLengthValidator_def trimmed decimal_8)
  from password_fields_min_length [OF short, of "\<lambda>value. []"] evaluated
  show ?thesis by blast
qed

lemma trimmed_before_length:
  "CharField_run_validation PasswordResetSerializer_new_password2 ''abcdefg '' =
     Inl (ValidationError (MsgList [''Ensure this field has at least 8 characters.'']))"
  "CharField_run_validation PasswordResetSerializer_new_password2 ''   '' =
     Inl (ValidationError (MsgList [''This field may not be blank.'']))"
  "CharField_run_validation PasswordResetSerializer_new_password2 '' NewSecret9 '' =
     Inr ''NewSecret9''"
  by (simp_all add: CharField_run_validation_def CharField_run_validators_def
      PasswordResetSerializer_new_password2_def MinLengthValidator_def strip_def isspace_def
      decimal_8)

subsection \<open>C10: a failed password change\<close>

text \<open>
  C10. When \<open>update\<close> of the password change fails because the old password does not
  verify against the stored hash, the account is left exactly as it was: the error is
  raised before \<open>set_password\<close> is reached. More generally, whenever \<open>update\<close> raises, the
  stored hash of the account is the one from before the call.
\<close>

theorem failed_password_change_keeps_hash:
  "(dict_get validated_data ''old_password'' = Some old
      \<and> \<not> verify_password H old (password instance) \<longrightarrow>
      fst (PasswordChangeSerializer_update H instance validated_data) \<noteq> None
      \<and> snd (PasswordChangeSerializer_update H instance validated_data) = instance)
   \<and> (fst (PasswordChangeSerializer_update H instance validated_data) \<noteq> None \<longrightarrow>
        password (snd (PasswordChangeSerializer_update H instance validated_data)) =
          password instance)"
  by (auto simp: PasswordChangeSerializer_update_def dict_item_def dict_get_def
      check_password_def set_password_def split: option.splits)

theorem failed_password_change_keeps_hash_witness:
  "snd (PasswordChangeSerializer_update toy_hasher alice
          [(''old_password'', ''Wrong1234''), (''new_password'', ''NewSecret9''),
           (''new_password2'', ''NewSecret9'')]) = alice
   \<and> password (snd (PasswordChangeSerializer_update toy_hasher alice
          [(''old_password'', ''Wrong1234''), (''new_password'', ''NewSecret9''),
           (''new_password2'', ''NewSecret9'')])) = ''hash-of-Secret123''"
proof -
  let ?data = "[(''old_password'', ''Wrong1234''), (''new_password'', ''NewSecret9''),
                (''new_password2'', ''NewSecret9'')]"
  have old: "dict_get ?data ''old_password'' = Some ''Wrong1234''"
    by (simp add: dict_get_def)
  have refuses: "\<not> verify_password toy_hasher ''Wrong1234'' (password alice)"
    by (simp add: toy_hasher_def alice_def)
  have stored: "password alice = ''hash-of-Secret123''"
    by (simp add: alice_def)
  from failed_password_change_keeps_hash [of ?data "''Wrong1234''" toy_hasher alice] old refuses
  have "fst (PasswordChangeSerializer_update toy_hasher alice ?data) \<noteq> None
      \<and> snd (PasswordChangeSerializer_update toy_hasher alice ?data) = alice"
    by blast
  with stored show ?thesis by simp
qed

end
